theory Spec2Isabelle
  imports Complex_Main
begin

section \<open>Data model (typedefs.hpp)\<close>

text \<open>
  The C++ type \<open>float\<close> is the type parameter \<open>'f\<close>. The source applies \<open>+\<close>, \<open>-\<close> and
  \<open><\<close> to it and converts the integer literal \<open>1\<close> to it; the definitions apply the
  operations of \<open>'f\<close> of the same names, in the order in which C++ evaluates them, and assume
  nothing of them. A theorem stated for every \<open>'f\<close> therefore holds whatever the arithmetic
  of \<open>float\<close> does: rounding, overflow to an infinity, NaN.

  Two instances are used. The type \<open>binary32\<close> defined below is the arithmetic of
  \<open>float\<close> itself, with rounding. The type \<^typ>\<open>real\<close> stands for the finite values with
  their order: comparing and selecting among given values does not round, and the sums
  and differences of the small integers of a scenario are exact in \<open>float\<close>.

  \<open>std::min(a, b)\<close> is \<open>(b < a) ? b : a\<close>.
\<close>

definition std_min :: "'f::ord \<Rightarrow> 'f \<Rightarrow> 'f" where
  "std_min a b = (if b < a then b else a)"

text \<open>
  \<open>struct def\<close> (a strict value) and \<open>struct lnt\<close> (a lenient value), each with one
  field \<open>value\<close>; \<open>Direction\<close> is \<open>std::variant<def, lnt>\<close>.
\<close>

datatype 'f Direction = def 'f | lnt 'f

datatype Aspect = Aspect_horizontal | Aspect_vertical

text \<open>
  \<open>struct Stage\<close>. Its field \<open>top\<close> is \<open>top_edge\<close> here, since \<open>top\<close> is a constant of
  HOL; the enumerators of \<open>Stage::Aspect\<close> carry the prefix \<open>Aspect_\<close>, since \<open>horizontal\<close>
  and \<open>vertical\<close> are also the fields of \<open>Instruction\<close>.
\<close>

record 'f Stage =
  left :: 'f
  right :: 'f
  top_edge :: 'f
  bottom :: 'f

definition aspect :: "('f::{minus,ord}) Stage \<Rightarrow> Aspect" where
  "aspect s = (if right s - left s > bottom s - top_edge s then Aspect_horizontal
               else Aspect_vertical)"

record 'f AxisDirection =
  low :: "'f Direction"
  high :: "'f Direction"

type_synonym 'f performance = "'f Stage"

record 'f Instruction =
  horizontal :: "'f AxisDirection"
  vertical :: "'f AxisDirection"

text \<open>
  \<open>preproduction\<close> is \<open>std::pair<Stage, std::function<void(Screen&)>>\<close>. The second
  component is a deferred draw operation that the negotiation never calls; it is the
  type parameter \<open>'tok\<close>.
\<close>

type_synonym ('f, 'tok) preproduction = "'f Stage \<times> 'tok"

record 'f StageLayout =
  x_offset :: 'f
  y_offset :: 'f
  horizontal_margin :: 'f
  vertical_margin :: 'f
  x_size :: 'f
  y_size :: 'f

text \<open>
  \<open>instruct_fn\<close>, \<open>adjust_fn\<close> and \<open>perform_fn\<close> are \<open>std::function\<close> values. They are
  modelled as HOL functions: a callable that holds a target, has no state of its own and
  returns normally.
\<close>

type_synonym 'f instruct_fn = "'f Stage \<Rightarrow> 'f StageLayout \<Rightarrow> 'f Instruction"
type_synonym 'f adjust_fn = "'f Stage \<Rightarrow> 'f performance \<Rightarrow> 'f StageLayout \<Rightarrow> 'f StageLayout"

record 'f Director =
  instruct :: "'f instruct_fn"
  adjust :: "'f adjust_fn"

type_synonym ('f, 'tok) perform_fn = "'f Instruction \<Rightarrow> string \<Rightarrow> ('f, 'tok) preproduction"

record ('f, 'tok) Actor =
  perfom :: "('f, 'tok) perform_fn"

record ('f, 'tok) Crew =
  director :: "'f Director"
  actor :: "('f, 'tok) Actor"

record ('f, 'tok) Set =
  stage :: "'f Stage"
  stage_layout :: "'f StageLayout"
  crew :: "('f, 'tok) Crew"

section \<open>Resolution of directions (typedefs.hpp)\<close>

text \<open>The lambda \<open>extract\<close>: the \<open>value\<close> field of either alternative.\<close>

fun extract_value :: "'f Direction \<Rightarrow> 'f" where
  "extract_value (def v) = v"
| "extract_value (lnt v) = v"

text \<open>
  The overloaded visitor of \<open>resolve_axis\<close>, one equation per lambda, in the order of the
  source; \<open>incoming_value\<close> is captured by reference there and is the first argument here.
\<close>

fun resolver :: "'f::ord \<Rightarrow> 'f Direction \<Rightarrow> 'f Direction \<Rightarrow> 'f" where
  "resolver incoming_value (def lower) (def upper) =
     (if incoming_value < lower then lower else upper)"
| "resolver incoming_value (def lower) (lnt upper) =
     (if incoming_value < lower then lower else std_min upper incoming_value)"
| "resolver incoming_value (lnt lower) (lnt upper) =
     (if incoming_value < lower then lower else std_min upper incoming_value)"
| "resolver incoming_value (lnt lower) (def upper) = upper"

definition resolve_axis :: "('f::ord) AxisDirection \<Rightarrow> 'f \<Rightarrow> 'f" where
  "resolve_axis instruction incoming_value =
     resolver incoming_value (low instruction) (high instruction)"

fun resolve_direction :: "('f::ord) Direction \<Rightarrow> 'f \<Rightarrow> 'f" where
  "resolve_direction (lnt direction) incoming_value = std_min direction incoming_value"
| "resolve_direction (def direction) incoming_value = direction"

section \<open>Directors (directors.hpp)\<close>

definition Lenient :: "'f \<Rightarrow> 'f Direction" where
  "Lenient val = lnt val"

definition Strict :: "'f \<Rightarrow> 'f Direction" where
  "Strict val = def val"

definition horizontal_next :: "('f::plus) instruct_fn" where
  "horizontal_next stg layout =
     \<lparr> horizontal = \<lparr> low = Strict (x_offset layout + horizontal_margin layout),
                       high = Lenient (right stg) \<rparr>,
       vertical = \<lparr> low = Strict (top_edge stg), high = Lenient (bottom stg) \<rparr> \<rparr>"

definition horizontal_adjust :: "('f::{plus,minus,one}) adjust_fn" where
  "horizontal_adjust stg perf layout =
     (let next = layout;
          next = next\<lparr> x_offset := x_offset next
                   + ((right perf - left perf) + 1 + horizontal_margin layout) \<rparr>;
          next = next\<lparr> x_size := x_size next + (left perf + right perf) \<rparr>
      in next)"

definition vertical_next :: "('f::plus) instruct_fn" where
  "vertical_next stg layout =
     \<lparr> horizontal = \<lparr> low = Strict (left stg), high = Lenient (right stg) \<rparr>,
       vertical = \<lparr> low = Strict (y_offset layout + vertical_margin layout),
                     high = Lenient (bottom stg) \<rparr> \<rparr>"

definition vertical_adjust :: "('f::{plus,minus,one}) adjust_fn" where
  "vertical_adjust stg perf layout =
     (let next = layout;
          next = next\<lparr> y_offset := y_offset next
                   + ((bottom perf - top_edge perf) + 1 + vertical_margin layout) \<rparr>;
          next = next\<lparr> y_size := y_size next + (top_edge perf + bottom perf + 1) \<rparr>
      in next)"

definition magically_next :: "('f::{plus,minus,ord}) instruct_fn" where
  "magically_next stg layout =
     (case aspect stg of
        Aspect_horizontal \<Rightarrow> horizontal_next stg layout
      | Aspect_vertical \<Rightarrow> vertical_next stg layout)"

definition magically_adjust :: "('f::{plus,minus,one,ord}) adjust_fn" where
  "magically_adjust stg perf layout =
     (case aspect stg of
        Aspect_horizontal \<Rightarrow> horizontal_adjust stg perf layout
      | Aspect_vertical \<Rightarrow> vertical_adjust stg perf layout)"

definition horizontally :: "('f::{plus,minus,one}) Director" where
  "horizontally = \<lparr> instruct = horizontal_next, adjust = horizontal_adjust \<rparr>"

definition vertically :: "('f::{plus,minus,one}) Director" where
  "vertically = \<lparr> instruct = vertical_next, adjust = vertical_adjust \<rparr>"

definition magically :: "('f::{plus,minus,one,ord}) Director" where
  "magically = \<lparr> instruct = magically_next, adjust = magically_adjust \<rparr>"

section \<open>The negotiation loop (main.cpp)\<close>

definition act_scene ::
  "('f, 'tok) Set \<Rightarrow> string \<Rightarrow> ('f, 'tok) Set \<times> ('f, 'tok) preproduction" where
  "act_scene set_v script =
     (let stg = stage set_v; layout = stage_layout set_v; crw = crew set_v;
          drc = director crw; performer = actor crw;
          instruction = instruct drc stg layout;
          result = perfom performer instruction script
      in (\<lparr> stage = stg,
             stage_layout = adjust drc stg (fst result) layout,
             crew = \<lparr> director = drc, actor = performer \<rparr> \<rparr>,
          result))"

definition produce_scene ::
  "('f, 'tok) Set \<Rightarrow> string \<Rightarrow> ('f, 'tok) Set \<times> ('f, 'tok) preproduction" where
  "produce_scene set_v script = act_scene set_v script"

text \<open>\<open>std::for_each\<close> with a callback that updates the state it captured by reference.\<close>

fun for_each :: "'a list \<Rightarrow> ('s \<Rightarrow> 'a \<Rightarrow> 's) \<Rightarrow> 's \<Rightarrow> 's" where
  "for_each [] f s = s"
| "for_each (x # xs) f s = for_each xs f (f s x)"

text \<open>
  The body of the callback in \<open>produce_scenes\<close>. Its state is the local deque
  \<open>set_queue\<close> and the caller's buffer \<open>into\<close>. \<open>set_queue.back()\<close> is \<^const>\<open>last\<close>;
  the deque starts with one element and only grows, so it is never empty.
\<close>

definition produce_step ::
  "('f, 'tok) Set list \<times> ('f, 'tok) preproduction list \<Rightarrow> string
     \<Rightarrow> ('f, 'tok) Set list \<times> ('f, 'tok) preproduction list" where
  "produce_step st script =
     (let set_queue = fst st; into = snd st;
          set_v = last set_queue;
          preprod = produce_scene set_v script;
          into = into @ [snd preprod];
          set_queue = set_queue @ [fst preprod]
      in (set_queue, into))"

text \<open>The deque and the buffer when the loop of \<open>produce_scenes\<close> ends.\<close>

definition produce_scenes_state ::
  "('f, 'tok) Set \<Rightarrow> ('f, 'tok) preproduction list \<Rightarrow> string list
     \<Rightarrow> ('f, 'tok) Set list \<times> ('f, 'tok) preproduction list" where
  "produce_scenes_state initial_set into scripts =
     for_each scripts produce_step ([initial_set], into)"

text \<open>
  \<open>produce_scenes\<close> returns nothing; what it leaves behind is the buffer \<open>into\<close>.
\<close>

definition produce_scenes ::
  "('f, 'tok) Set \<Rightarrow> ('f, 'tok) preproduction list \<Rightarrow> string list
     \<Rightarrow> ('f, 'tok) preproduction list" where
  "produce_scenes initial_set into scripts =
     snd (produce_scenes_state initial_set into scripts)"

section \<open>The negotiation loop as the specification words it\<close>

text \<open>
  This definition follows the specification (section 4.4), not the source: for each item
  in order, starting from the initial cursor, (1) the director computes the instruction
  from the stage and the cursor, (2) the performer resolves the instruction and the item
  into a placement and a token, (3) the director advances the cursor on the placement,
  (4) the pair is appended to the output. The result is the output sequence and the final
  cursor. It is what \<open>produce_scenes\<close> is compared with.
\<close>

fun spec_run ::
  "'f Stage \<Rightarrow> 'f StageLayout \<Rightarrow> 'f Director \<Rightarrow> ('f, 'tok) Actor \<Rightarrow> string list
     \<Rightarrow> ('f, 'tok) preproduction list \<times> 'f StageLayout" where
  "spec_run stg cursor drc performer [] = ([], cursor)"
| "spec_run stg cursor drc performer (item # items) =
     (let instruction = instruct drc stg cursor;
          result = perfom performer instruction item;
          cursor = adjust drc stg (fst result) cursor;
          rest = spec_run stg cursor drc performer items
      in (result # fst rest, snd rest))"

section \<open>The arithmetic of \<open>float\<close>\<close>

text \<open>
  The type \<open>float\<close> of the compilers this program is built with is the binary32 format of
  IEEE 754, and an operation on two \<open>float\<close> values is computed in that format
  (\<open>FLT_EVAL_METHOD\<close> is 0), rounding to nearest, ties to even. A value is a finite
  number, an infinity or NaN. The two zeros are one value here, as they are for \<open>==\<close> and
  \<open><\<close>, the only tests the source applies; the payload and sign of a NaN are not kept.
  A finite value is kept as the real number it denotes; every operation below returns a
  number of the format, an infinity or NaN.

  \<open>round32 x\<close> is the \<open>float\<close> nearest to the real number \<open>x\<close>. In the binade
  \<open>2^e \<le> |x| < 2^(e+1)\<close> the values are \<open>2^(e-23)\<close> apart; below \<open>2^-126\<close> they are
  \<open>2^-149\<close> apart (the subnormal numbers); a result of magnitude \<open>2^128\<close> or more is an
  infinity.
\<close>

datatype binary32 = Finite real | PosInf | NegInf | NaN

definition round_even :: "real \<Rightarrow> int" where
  "round_even y =
     (let f = \<lfloor>y\<rfloor>; d = y - of_int f
      in if d < 1 / 2 then f else if 1 / 2 < d then f + 1
         else if even f then f else f + 1)"

definition pow2 :: "int \<Rightarrow> real" where
  "pow2 k = (if 0 \<le> k then 2 ^ nat k else 1 / 2 ^ nat (- k))"

definition ulp_exponent :: "real \<Rightarrow> int" where
  "ulp_exponent x = max \<lfloor>log 2 \<bar>x\<bar>\<rfloor> (- 126) - 23"

definition round32 :: "real \<Rightarrow> binary32" where
  "round32 x =
     (if x = 0 then Finite 0
      else let u = pow2 (ulp_exponent x);
               r = of_int (round_even (x / u)) * u
           in if 2 ^ 128 \<le> r then PosInf
              else if r \<le> - (2 ^ 128) then NegInf
              else Finite r)"

text \<open>
  Addition, negation and \<open><\<close>. A sum of finite values is the exact sum, rounded;
  \<open>a - b\<close> is \<open>a + (-b)\<close>; a comparison with NaN is false.
\<close>

fun binary32_add :: "binary32 \<Rightarrow> binary32 \<Rightarrow> binary32" where
  "binary32_add NaN b = NaN"
| "binary32_add a NaN = NaN"
| "binary32_add PosInf NegInf = NaN"
| "binary32_add NegInf PosInf = NaN"
| "binary32_add PosInf b = PosInf"
| "binary32_add a PosInf = PosInf"
| "binary32_add NegInf b = NegInf"
| "binary32_add a NegInf = NegInf"
| "binary32_add (Finite a) (Finite b) = round32 (a + b)"

fun binary32_neg :: "binary32 \<Rightarrow> binary32" where
  "binary32_neg NaN = NaN"
| "binary32_neg PosInf = NegInf"
| "binary32_neg NegInf = PosInf"
| "binary32_neg (Finite a) = Finite (- a)"

fun binary32_less :: "binary32 \<Rightarrow> binary32 \<Rightarrow> bool" where
  "binary32_less NaN b = False"
| "binary32_less a NaN = False"
| "binary32_less a NegInf = False"
| "binary32_less PosInf b = False"
| "binary32_less NegInf b = True"
| "binary32_less a PosInf = True"
| "binary32_less (Finite a) (Finite b) = (a < b)"

instantiation binary32 :: "{plus, minus, one, ord}"
begin

definition plus_binary32 :: "binary32 \<Rightarrow> binary32 \<Rightarrow> binary32" where
  "a + b = binary32_add a b"

definition minus_binary32 :: "binary32 \<Rightarrow> binary32 \<Rightarrow> binary32" where
  "a - b = binary32_add a (binary32_neg b)"

definition one_binary32 :: binary32 where
  "1 = Finite 1"

definition less_binary32 :: "binary32 \<Rightarrow> binary32 \<Rightarrow> bool" where
  "a < b = binary32_less a b"

definition less_eq_binary32 :: "binary32 \<Rightarrow> binary32 \<Rightarrow> bool" where
  "a \<le> b = (binary32_less a b \<or> (a = b \<and> a \<noteq> NaN))"

instance ..

end

section \<open>Rounding at given numbers\<close>

lemma round32_in_binade:
  assumes "2 powr of_int k \<le> \<bar>x\<bar>" and "\<bar>x\<bar> < 2 powr (of_int k + 1)"
  shows "round32 x =
     (let u = pow2 (max k (- 126) - 23);
          r = of_int (round_even (x / u)) * u
      in if 2 ^ 128 \<le> r then PosInf
         else if r \<le> - (2 ^ 128) then NegInf
         else Finite r)"
proof -
  have "0 < (2::real) powr of_int k" by simp
  with assms(1) have pos: "0 < \<bar>x\<bar>" by linarith
  then have "x \<noteq> 0" by auto
  moreover from pos assms have "\<lfloor>log 2 \<bar>x\<bar>\<rfloor> = k"
    by (simp add: floor_log_eq_powr_iff)
  ultimately show ?thesis by (simp add: round32_def ulp_exponent_def)
qed

lemma round32_0: "round32 0 = Finite 0"
  by (simp add: round32_def)

lemma round32_1: "round32 1 = Finite 1"
  using round32_in_binade [of 0 1] by (simp add: pow2_def round_even_def Let_def)

lemma round32_5: "round32 5 = Finite 5"
  using round32_in_binade [of 2 5] by (simp add: pow2_def round_even_def Let_def)

lemma round32_7: "round32 7 = Finite 7"
  using round32_in_binade [of 2 7] by (simp add: pow2_def round_even_def Let_def)

lemma round32_20: "round32 20 = Finite 20"
  using round32_in_binade [of 4 20] by (simp add: pow2_def round_even_def Let_def)

lemma round32_40: "round32 40 = Finite 40"
  using round32_in_binade [of 5 40] by (simp add: pow2_def round_even_def Let_def)

lemma round32_41: "round32 41 = Finite 41"
  using round32_in_binade [of 5 41] by (simp add: pow2_def round_even_def Let_def)

lemma round32_60: "round32 60 = Finite 60"
  using round32_in_binade [of 5 60] by (simp add: pow2_def round_even_def Let_def)

text \<open>\<open>2^24\<close> is a \<open>float\<close>; \<open>2^24 + 1\<close> is not, and is a tie that rounds to \<open>2^24\<close>.\<close>

lemma round32_16777216: "round32 16777216 = Finite 16777216"
  using round32_in_binade [of 24 16777216] by (simp add: pow2_def round_even_def Let_def)

lemma round32_16777217: "round32 16777217 = Finite 16777216"
  using round32_in_binade [of 24 16777217] by (simp add: pow2_def round_even_def Let_def)

text \<open>
  The \<open>float\<close> values nearest to \<open>0.1\<close> and \<open>1.1\<close> are \<open>13421773 / 2^27\<close> and
  \<open>9227469 / 2^23\<close>; their exact difference \<open>1 + 3 / 2^27\<close> rounds to \<open>1\<close>.
\<close>

lemma round32_134217731: "round32 (134217731 / 134217728) = Finite 1"
  using round32_in_binade [of 0 "134217731 / 134217728"]
  by (simp add: pow2_def round_even_def Let_def)

lemmas binary32_arith =
  plus_binary32_def minus_binary32_def one_binary32_def less_binary32_def
  round32_0 round32_1 round32_5 round32_7 round32_20 round32_40 round32_41 round32_60
  round32_16777216 round32_16777217 round32_134217731

section \<open>Properties of the resolution functions\<close>

lemma std_min_eq_min: "std_min a b = min a (b::'f::linorder)"
  by (auto simp add: std_min_def min_def)

text \<open>
  Claim C1. For all bounds and every incoming value, \<open>resolve_axis\<close> follows the table of
  four cases: strict/strict gives the low value if the incoming value is below it and the
  high value otherwise; strict/lenient and lenient/lenient give the low value if the
  incoming value is below it and the minimum of the high value and the incoming value
  otherwise; lenient/strict always gives the high value.
\<close>

theorem resolve_axis_table:
  fixes a b x :: real
  shows "resolve_axis \<lparr> low = Strict a, high = Strict b \<rparr> x = (if x < a then a else b)
   \<and> resolve_axis \<lparr> low = Strict a, high = Lenient b \<rparr> x = (if x < a then a else min b x)
   \<and> resolve_axis \<lparr> low = Lenient a, high = Lenient b \<rparr> x = (if x < a then a else min b x)
   \<and> resolve_axis \<lparr> low = Lenient a, high = Strict b \<rparr> x = b"
  by (simp add: resolve_axis_def Strict_def Lenient_def std_min_eq_min)

theorem resolve_axis_table_witness:
  "resolve_axis \<lparr> low = Strict 10, high = Strict 50 \<rparr> 5 = (10::real)
   \<and> resolve_axis \<lparr> low = Strict 10, high = Strict 50 \<rparr> 30 = (50::real)
   \<and> resolve_axis \<lparr> low = Strict 10, high = Lenient 50 \<rparr> 30 = (30::real)
   \<and> resolve_axis \<lparr> low = Lenient 10, high = Lenient 50 \<rparr> 70 = (50::real)
   \<and> resolve_axis \<lparr> low = Lenient 10, high = Strict 50 \<rparr> 5 = (50::real)"
  using resolve_axis_table [of 10 50 5] resolve_axis_table [of 10 50 30]
    resolve_axis_table [of 10 50 70]
  by simp

text \<open>
  Claim C8. With both bounds strict, the result of \<open>resolve_axis\<close> does not depend on the
  incoming value once the floor is met: any two incoming values at or above the low value
  give the same result.
\<close>

theorem fixed_fixed_ignores_incoming:
  fixes a b x1 x2 :: real
  assumes "a \<le> x1" and "a \<le> x2"
  shows "resolve_axis \<lparr> low = Strict a, high = Strict b \<rparr> x1
         = resolve_axis \<lparr> low = Strict a, high = Strict b \<rparr> x2"
  using assms by (simp add: resolve_axis_def Strict_def)

theorem fixed_fixed_ignores_incoming_witness:
  "(10::real) \<le> 10 \<and> (10::real) \<le> 300
   \<and> resolve_axis \<lparr> low = Strict 10, high = Strict 50 \<rparr> (10::real)
     = resolve_axis \<lparr> low = Strict 10, high = Strict 50 \<rparr> 300"
proof -
  have h1: "(10::real) \<le> 10" and h2: "(10::real) \<le> 300" by simp_all
  from fixed_fixed_ignores_incoming [OF h1 h2, of 50] h1 h2 show ?thesis by simp
qed

text \<open>
  Claim C9. Resolving a single lenient bound \<open>v\<close> against an incoming value \<open>x\<close> gives
  the minimum of \<open>v\<close> and \<open>x\<close>; resolving a strict bound \<open>v\<close> gives \<open>v\<close>, whatever
  \<open>x\<close> is.
\<close>

theorem resolve_direction_single:
  fixes v x :: real
  shows "resolve_direction (Lenient v) x = min v x \<and> resolve_direction (Strict v) x = v"
  by (simp add: Strict_def Lenient_def std_min_eq_min)

text \<open>
  Claim C10. When the low bound is lenient with value \<open>a\<close> and the incoming value is at
  least \<open>a\<close>, resolving the axis is resolving the high bound alone, for a high bound of
  either kind.
\<close>

theorem flexible_low_reduces_to_single:
  fixes a x :: real
  assumes "a \<le> x"
  shows "resolve_axis \<lparr> low = Lenient a, high = b \<rparr> x = resolve_direction b x"
  using assms by (cases b) (simp_all add: resolve_axis_def Lenient_def)

theorem flexible_low_reduces_to_single_witness:
  "(3::real) \<le> 7
   \<and> resolve_axis \<lparr> low = Lenient 3, high = Lenient 5 \<rparr> (7::real)
       = resolve_direction (Lenient 5) 7
   \<and> resolve_axis \<lparr> low = Lenient 3, high = Strict 5 \<rparr> (7::real)
       = resolve_direction (Strict 5) 7
   \<and> resolve_direction (Lenient 5) 7 = (5::real)"
proof -
  have h: "(3::real) \<le> 7" by simp
  from flexible_low_reduces_to_single [OF h, of "Lenient 5"]
    flexible_low_reduces_to_single [OF h, of "Strict 5"] h
  show ?thesis by (simp add: Lenient_def std_min_def)
qed

section \<open>Properties of the directors\<close>

text \<open>
  Claim C2 (as amended). With the stage \<open>{left 0, right 200, top 0, bottom 40}\<close>, the
  director that stacks horizontally, both margins zero and the cursor all zero: the first
  instruction has the horizontal range strict 0 to lenient 200; after a placement that is
  40 wide the cursor has \<open>x_offset = 41\<close>; and the second instruction has the horizontal
  range strict 41 to lenient 200. The high bound is the stage's right edge, an absolute
  position, in every instruction.
\<close>

theorem scenario_1_absolute_right_edge:
  fixes perf :: "real performance"
  defines "stg \<equiv> \<lparr> left = (0::real), right = 200, top_edge = 0, bottom = 40 \<rparr>"
    and "cursor \<equiv> \<lparr> x_offset = (0::real), y_offset = 0, horizontal_margin = 0,
                      vertical_margin = 0, x_size = 0, y_size = 0 \<rparr>"
  assumes "right perf - left perf = 40"
  shows "horizontal (instruct horizontally stg cursor)
           = \<lparr> low = Strict 0, high = Lenient 200 \<rparr>
     \<and> x_offset (adjust horizontally stg perf cursor) = 41
     \<and> horizontal (instruct horizontally stg (adjust horizontally stg perf cursor))
           = \<lparr> low = Strict 41, high = Lenient 200 \<rparr>"
  using assms(3)
  by (simp add: stg_def cursor_def horizontally_def horizontal_next_def horizontal_adjust_def)

theorem scenario_1_absolute_right_edge_witness:
  "right \<lparr> left = (0::real), right = 40, top_edge = 0, bottom = 2 \<rparr>
     - left \<lparr> left = (0::real), right = 40, top_edge = 0, bottom = 2 \<rparr> = 40
   \<and> x_offset (adjust horizontally \<lparr> left = (0::real), right = 200, top_edge = 0, bottom = 40 \<rparr>
        \<lparr> left = (0::real), right = 40, top_edge = 0, bottom = 2 \<rparr>
        \<lparr> x_offset = (0::real), y_offset = 0, horizontal_margin = 0, vertical_margin = 0,
          x_size = 0, y_size = 0 \<rparr>) = 41
   \<and> high (horizontal (instruct horizontally
        \<lparr> left = (0::real), right = 200, top_edge = 0, bottom = 40 \<rparr>
        (adjust horizontally \<lparr> left = (0::real), right = 200, top_edge = 0, bottom = 40 \<rparr>
          \<lparr> left = (0::real), right = 40, top_edge = 0, bottom = 2 \<rparr>
          \<lparr> x_offset = (0::real), y_offset = 0, horizontal_margin = 0, vertical_margin = 0,
            x_size = 0, y_size = 0 \<rparr>))) = Lenient 200"
proof -
  have h: "right \<lparr> left = (0::real), right = 40, top_edge = 0, bottom = 2 \<rparr>
             - left \<lparr> left = (0::real), right = 40, top_edge = 0, bottom = 2 \<rparr> = 40"
    by simp
  from scenario_1_absolute_right_edge [OF h] h show ?thesis by simp
qed

text \<open>
  The claim C2 as it is written asks for lenient 159 as the high bound of the second
  instruction. At the placement \<open>{left 0, right 40, top 0, bottom 2}\<close> the second
  instruction is strict 41 to lenient 200, which is not strict 41 to lenient 159.
\<close>

theorem scenario_1_second_range_counterexample:
  "horizontal (horizontal_next \<lparr> left = (0::real), right = 200, top_edge = 0, bottom = 40 \<rparr>
      (horizontal_adjust \<lparr> left = (0::real), right = 200, top_edge = 0, bottom = 40 \<rparr>
         \<lparr> left = (0::real), right = 40, top_edge = 0, bottom = 2 \<rparr>
         \<lparr> x_offset = (0::real), y_offset = 0, horizontal_margin = 0, vertical_margin = 0,
           x_size = 0, y_size = 0 \<rparr>))
     = \<lparr> low = Strict 41, high = Lenient 200 \<rparr>
   \<and> horizontal (horizontal_next \<lparr> left = (0::real), right = 200, top_edge = 0, bottom = 40 \<rparr>
      (horizontal_adjust \<lparr> left = (0::real), right = 200, top_edge = 0, bottom = 40 \<rparr>
         \<lparr> left = (0::real), right = 40, top_edge = 0, bottom = 2 \<rparr>
         \<lparr> x_offset = (0::real), y_offset = 0, horizontal_margin = 0, vertical_margin = 0,
           x_size = 0, y_size = 0 \<rparr>))
     \<noteq> \<lparr> low = Strict 41, high = Lenient 159 \<rparr>"
  by (simp add: horizontal_next_def horizontal_adjust_def Strict_def Lenient_def)

text \<open>
  The same scenario in the arithmetic of \<open>float\<close>: every sum in it is exact.
\<close>

lemma scenario_1_binary32:
  fixes perf :: "binary32 performance"
  defines "stg \<equiv> \<lparr> left = Finite 0, right = Finite 200, top_edge = Finite 0,
                    bottom = Finite 40 \<rparr>"
    and "cursor \<equiv> \<lparr> x_offset = Finite 0, y_offset = Finite 0,
                      horizontal_margin = Finite 0, vertical_margin = Finite 0,
                      x_size = Finite 0, y_size = Finite 0 \<rparr>"
  assumes "right perf - left perf = Finite 40"
  shows "horizontal (instruct horizontally stg cursor)
           = \<lparr> low = Strict (Finite 0), high = Lenient (Finite 200) \<rparr>
     \<and> x_offset (adjust horizontally stg perf cursor) = Finite 41
     \<and> horizontal (instruct horizontally stg (adjust horizontally stg perf cursor))
           = \<lparr> low = Strict (Finite 41), high = Lenient (Finite 200) \<rparr>"
  using assms(3)
  by (simp add: stg_def cursor_def horizontally_def horizontal_next_def horizontal_adjust_def
      binary32_arith)

text \<open>
  Claim C3. Stacking horizontally, the adjusted layout is the given one with \<open>x_offset\<close>
  increased by \<open>(right - left) + 1 + horizontal_margin\<close> and \<open>x_size\<close> increased by
  \<open>left + right\<close> of the placement; stacking vertically, it is the given one with
  \<open>y_offset\<close> increased by \<open>(bottom - top) + 1 + vertical_margin\<close> and \<open>y_size\<close>
  increased by \<open>top + bottom + 1\<close>. Every other field is the given one. The sums and
  differences are those of \<open>float\<close>, taken in the order written, whatever they round to.
\<close>

theorem stack_adjust_updates:
  fixes layout :: "('f::{plus,minus,one}) StageLayout"
  shows "horizontal_adjust stg perf layout =
     \<lparr> x_offset = x_offset layout + ((right perf - left perf) + 1 + horizontal_margin layout),
       y_offset = y_offset layout,
       horizontal_margin = horizontal_margin layout,
       vertical_margin = vertical_margin layout,
       x_size = x_size layout + (left perf + right perf),
       y_size = y_size layout \<rparr>
   \<and> vertical_adjust stg perf layout =
     \<lparr> x_offset = x_offset layout,
       y_offset = y_offset layout + ((bottom perf - top_edge perf) + 1 + vertical_margin layout),
       horizontal_margin = horizontal_margin layout,
       vertical_margin = vertical_margin layout,
       x_size = x_size layout,
       y_size = y_size layout + (top_edge perf + bottom perf + 1) \<rparr>"
  by (cases layout) (simp add: horizontal_adjust_def vertical_adjust_def)

text \<open>
  In the arithmetic of \<open>float\<close>, at the offset \<open>2^24\<close> and an empty placement at the
  origin: the increase is \<open>1\<close>, and the sum \<open>2^24 + 1\<close> rounds back to \<open>2^24\<close>.
\<close>

theorem stack_adjust_updates_witness:
  "horizontal_adjust
       \<lparr> left = Finite 0, right = Finite 200, top_edge = Finite 0, bottom = Finite 40 \<rparr>
       \<lparr> left = Finite 0, right = Finite 0, top_edge = Finite 0, bottom = Finite 0 \<rparr>
       \<lparr> x_offset = Finite 16777216, y_offset = Finite 16777216,
         horizontal_margin = Finite 0, vertical_margin = Finite 0,
         x_size = Finite 0, y_size = Finite 0 \<rparr>
     = \<lparr> x_offset = Finite 16777216, y_offset = Finite 16777216,
         horizontal_margin = Finite 0, vertical_margin = Finite 0,
         x_size = Finite 0, y_size = Finite 0 \<rparr>
   \<and> vertical_adjust
       \<lparr> left = Finite 0, right = Finite 200, top_edge = Finite 0, bottom = Finite 40 \<rparr>
       \<lparr> left = Finite 0, right = Finite 0, top_edge = Finite 0, bottom = Finite 0 \<rparr>
       \<lparr> x_offset = Finite 16777216, y_offset = Finite 16777216,
         horizontal_margin = Finite 0, vertical_margin = Finite 0,
         x_size = Finite 0, y_size = Finite 0 \<rparr>
     = \<lparr> x_offset = Finite 16777216, y_offset = Finite 16777216,
         horizontal_margin = Finite 0, vertical_margin = Finite 0,
         x_size = Finite 0, y_size = Finite 1 \<rparr>"
  using stack_adjust_updates [of
      "\<lparr> left = Finite 0, right = Finite 200, top_edge = Finite 0, bottom = Finite 40 \<rparr>"
      "\<lparr> left = Finite 0, right = Finite 0, top_edge = Finite 0, bottom = Finite 0 \<rparr>"
      "\<lparr> x_offset = Finite 16777216, y_offset = Finite 16777216,
         horizontal_margin = Finite 0, vertical_margin = Finite 0,
         x_size = Finite 0, y_size = Finite 0 \<rparr>"]
  by (simp add: binary32_arith)

text \<open>
  Claim C4. Stacking horizontally, the instruction for a stage and a layout has the
  horizontal range strict \<open>x_offset + horizontal_margin\<close> to lenient \<open>right\<close> of the
  stage, and the vertical range strict \<open>top\<close> to lenient \<open>bottom\<close> of the stage. The
  sum is that of \<open>float\<close>, whatever it rounds to.
\<close>

theorem horizontal_next_ranges:
  fixes layout :: "('f::plus) StageLayout"
  shows "horizontal (horizontal_next stg layout) =
     \<lparr> low = Strict (x_offset layout + horizontal_margin layout), high = Lenient (right stg) \<rparr>
   \<and> vertical (horizontal_next stg layout) =
     \<lparr> low = Strict (top_edge stg), high = Lenient (bottom stg) \<rparr>"
  by (simp add: horizontal_next_def)

text \<open>
  In the arithmetic of \<open>float\<close>, at the offset \<open>2^24\<close> and the margin \<open>1\<close>: the strict
  low bound is \<open>2^24\<close>.
\<close>

theorem horizontal_next_ranges_witness:
  "horizontal (horizontal_next
       \<lparr> left = Finite 0, right = Finite 200, top_edge = Finite 0, bottom = Finite 40 \<rparr>
       \<lparr> x_offset = Finite 16777216, y_offset = Finite 0,
         horizontal_margin = Finite 1, vertical_margin = Finite 0,
         x_size = Finite 0, y_size = Finite 0 \<rparr>)
     = \<lparr> low = def (Finite 16777216), high = lnt (Finite 200) \<rparr>
   \<and> vertical (horizontal_next
       \<lparr> left = Finite 0, right = Finite 200, top_edge = Finite 0, bottom = Finite 40 \<rparr>
       \<lparr> x_offset = Finite 16777216, y_offset = Finite 0,
         horizontal_margin = Finite 1, vertical_margin = Finite 0,
         x_size = Finite 0, y_size = Finite 0 \<rparr>)
     = \<lparr> low = def (Finite 0), high = lnt (Finite 40) \<rparr>"
  using horizontal_next_ranges [of
      "\<lparr> left = Finite 0, right = Finite 200, top_edge = Finite 0, bottom = Finite 40 \<rparr>"
      "\<lparr> x_offset = Finite 16777216, y_offset = Finite 0,
         horizontal_margin = Finite 1, vertical_margin = Finite 0,
         x_size = Finite 0, y_size = Finite 0 \<rparr>"]
  by (simp add: Strict_def Lenient_def binary32_arith)

text \<open>
  Claim C5. The director \<open>magically\<close> instructs and adjusts exactly as \<open>horizontally\<close>
  does when the stage is wider than it is high (\<open>right - left > bottom - top\<close>), and
  exactly as \<open>vertically\<close> does otherwise; a stage as wide as it is high is in the second
  case. The differences and the comparison are those of \<open>float\<close>.
\<close>

theorem magically_delegates:
  fixes layout :: "('f::{plus,minus,one,ord}) StageLayout"
  shows "instruct magically stg layout =
     (if right stg - left stg > bottom stg - top_edge stg
      then instruct horizontally stg layout else instruct vertically stg layout)
   \<and> adjust magically stg perf layout =
     (if right stg - left stg > bottom stg - top_edge stg
      then adjust horizontally stg perf layout else adjust vertically stg perf layout)"
  by (simp add: magically_def horizontally_def vertically_def magically_next_def
      magically_adjust_def aspect_def)

text \<open>
  In the arithmetic of \<open>float\<close>: the stage \<open>{left -1, right 2^24, top 0, bottom 2^24}\<close>
  has the width \<open>2^24 + 1\<close>, which rounds to \<open>2^24\<close>, its height, so \<open>magically\<close> is
  \<open>vertically\<close> there and differs from \<open>horizontally\<close>; the stage
  \<open>{left 0, right 60, top 0, bottom 20}\<close> is wider than high, so \<open>magically\<close> is
  \<open>horizontally\<close> there and differs from \<open>vertically\<close>; the stage from \<open>0.1\<close> to
  \<open>1.1\<close> and from \<open>0\<close> to \<open>1\<close> has a width that rounds to \<open>1\<close>, its height, so
  \<open>magically\<close> is \<open>vertically\<close> there.
\<close>

theorem magically_delegates_witness:
  "instruct magically
       \<lparr> left = Finite (- 1), right = Finite 16777216, top_edge = Finite 0,
         bottom = Finite 16777216 \<rparr>
       \<lparr> x_offset = Finite 5, y_offset = Finite 7,
         horizontal_margin = Finite 0, vertical_margin = Finite 0,
         x_size = Finite 0, y_size = Finite 0 \<rparr>
     = \<lparr> horizontal = \<lparr> low = def (Finite (- 1)), high = lnt (Finite 16777216) \<rparr>,
         vertical = \<lparr> low = def (Finite 7), high = lnt (Finite 16777216) \<rparr> \<rparr>
   \<and> instruct horizontally
       \<lparr> left = Finite (- 1), right = Finite 16777216, top_edge = Finite 0,
         bottom = Finite 16777216 \<rparr>
       \<lparr> x_offset = Finite 5, y_offset = Finite 7,
         horizontal_margin = Finite 0, vertical_margin = Finite 0,
         x_size = Finite 0, y_size = Finite 0 \<rparr>
     = \<lparr> horizontal = \<lparr> low = def (Finite 5), high = lnt (Finite 16777216) \<rparr>,
         vertical = \<lparr> low = def (Finite 0), high = lnt (Finite 16777216) \<rparr> \<rparr>
   \<and> instruct magically
       \<lparr> left = Finite 0, right = Finite 60, top_edge = Finite 0, bottom = Finite 20 \<rparr>
       \<lparr> x_offset = Finite 5, y_offset = Finite 7,
         horizontal_margin = Finite 0, vertical_margin = Finite 0,
         x_size = Finite 0, y_size = Finite 0 \<rparr>
     = \<lparr> horizontal = \<lparr> low = def (Finite 5), high = lnt (Finite 60) \<rparr>,
         vertical = \<lparr> low = def (Finite 0), high = lnt (Finite 20) \<rparr> \<rparr>
   \<and> instruct vertically
       \<lparr> left = Finite 0, right = Finite 60, top_edge = Finite 0, bottom = Finite 20 \<rparr>
       \<lparr> x_offset = Finite 5, y_offset = Finite 7,
         horizontal_margin = Finite 0, vertical_margin = Finite 0,
         x_size = Finite 0, y_size = Finite 0 \<rparr>
     = \<lparr> horizontal = \<lparr> low = def (Finite 0), high = lnt (Finite 60) \<rparr>,
         vertical = \<lparr> low = def (Finite 7), high = lnt (Finite 20) \<rparr> \<rparr>
   \<and> instruct magically
       \<lparr> left = Finite (13421773 / 134217728), right = Finite (9227469 / 8388608),
         top_edge = Finite 0, bottom = Finite 1 \<rparr>
       \<lparr> x_offset = Finite 5, y_offset = Finite 7,
         horizontal_margin = Finite 0, vertical_margin = Finite 0,
         x_size = Finite 0, y_size = Finite 0 \<rparr>
     = \<lparr> horizontal = \<lparr> low = def (Finite (13421773 / 134217728)),
                         high = lnt (Finite (9227469 / 8388608)) \<rparr>,
         vertical = \<lparr> low = def (Finite 7), high = lnt (Finite 1) \<rparr> \<rparr>
   \<and> x_offset (adjust magically
       \<lparr> left = Finite 0, right = Finite 60, top_edge = Finite 0, bottom = Finite 20 \<rparr>
       \<lparr> left = Finite 0, right = Finite 40, top_edge = Finite 0, bottom = Finite 0 \<rparr>
       \<lparr> x_offset = Finite 0, y_offset = Finite 0,
         horizontal_margin = Finite 0, vertical_margin = Finite 0,
         x_size = Finite 0, y_size = Finite 0 \<rparr>) = Finite 41"
  using magically_delegates [of
      "\<lparr> left = Finite (- 1), right = Finite 16777216, top_edge = Finite 0,
         bottom = Finite 16777216 \<rparr>"
      "\<lparr> x_offset = Finite 5, y_offset = Finite 7,
         horizontal_margin = Finite 0, vertical_margin = Finite 0,
         x_size = Finite 0, y_size = Finite 0 \<rparr>"]
    magically_delegates [of
      "\<lparr> left = Finite 0, right = Finite 60, top_edge = Finite 0, bottom = Finite 20 \<rparr>"
      "\<lparr> x_offset = Finite 5, y_offset = Finite 7,
         horizontal_margin = Finite 0, vertical_margin = Finite 0,
         x_size = Finite 0, y_size = Finite 0 \<rparr>"]
    magically_delegates [of
      "\<lparr> left = Finite (13421773 / 134217728), right = Finite (9227469 / 8388608),
         top_edge = Finite 0, bottom = Finite 1 \<rparr>"
      "\<lparr> x_offset = Finite 5, y_offset = Finite 7,
         horizontal_margin = Finite 0, vertical_margin = Finite 0,
         x_size = Finite 0, y_size = Finite 0 \<rparr>"]
    magically_delegates [of
      "\<lparr> left = Finite 0, right = Finite 60, top_edge = Finite 0, bottom = Finite 20 \<rparr>"
      "\<lparr> x_offset = Finite 0, y_offset = Finite 0,
         horizontal_margin = Finite 0, vertical_margin = Finite 0,
         x_size = Finite 0, y_size = Finite 0 \<rparr>"
      "\<lparr> left = Finite 0, right = Finite 40, top_edge = Finite 0, bottom = Finite 0 \<rparr>"]
  by (simp add: horizontally_def vertically_def horizontal_next_def vertical_next_def
      horizontal_adjust_def Strict_def Lenient_def binary32_arith)

section \<open>Properties of the negotiation loop\<close>

lemma produce_step_eq:
  "produce_step (q, into) script =
     (q @ [fst (act_scene (last q) script)], into @ [snd (act_scene (last q) script)])"
  by (simp add: produce_step_def produce_scene_def Let_def)

lemma act_scene_make:
  "act_scene \<lparr> stage = stg, stage_layout = cursor,
               crew = \<lparr> director = drc, actor = performer \<rparr> \<rparr> script =
     (\<lparr> stage = stg,
        stage_layout = adjust drc stg (fst (perfom performer (instruct drc stg cursor) script)) cursor,
        crew = \<lparr> director = drc, actor = performer \<rparr> \<rparr>,
      perfom performer (instruct drc stg cursor) script)"
  by (simp add: act_scene_def Let_def)

lemma act_scene_keeps:
  "stage (fst (act_scene set_v script)) = stage set_v
   \<and> crew (fst (act_scene set_v script)) = crew set_v"
  by (simp add: act_scene_def Let_def)

lemma for_each_produce_step:
  assumes "q \<noteq> []"
    and "last q = \<lparr> stage = stg, stage_layout = cursor,
                     crew = \<lparr> director = drc, actor = performer \<rparr> \<rparr>"
  shows "snd (for_each scripts produce_step (q, into))
           = into @ fst (spec_run stg cursor drc performer scripts)
         \<and> last (fst (for_each scripts produce_step (q, into)))
           = \<lparr> stage = stg, stage_layout = snd (spec_run stg cursor drc performer scripts),
               crew = \<lparr> director = drc, actor = performer \<rparr> \<rparr>"
  using assms
proof (induction scripts arbitrary: q into cursor)
  case Nil
  then show ?case by simp
next
  case (Cons script scripts)
  let ?result = "perfom performer (instruct drc stg cursor) script"
  let ?cursor = "adjust drc stg (fst ?result) cursor"
  let ?set = "\<lparr> stage = stg, stage_layout = ?cursor,
                 crew = \<lparr> director = drc, actor = performer \<rparr> \<rparr>"
  have step: "produce_step (q, into) script = (q @ [?set], into @ [?result])"
    by (simp add: produce_step_eq Cons.prems(2) act_scene_make)
  have "q @ [?set] \<noteq> []" and "last (q @ [?set]) = ?set" by simp_all
  from Cons.IH [OF this, of "into @ [?result]"] show ?case
    by (simp add: step Let_def)
qed

lemma for_each_queue_frame:
  assumes "q \<noteq> []"
    and "\<forall>s \<in> set q. stage s = stg \<and> crew s = crw"
  shows "\<forall>s \<in> set (fst (for_each scripts produce_step (q, into))).
           stage s = stg \<and> crew s = crw"
  using assms
proof (induction scripts arbitrary: q into)
  case Nil
  then show ?case by simp
next
  case (Cons script scripts)
  let ?set = "fst (act_scene (last q) script)"
  from Cons.prems have "last q \<in> set q" by simp
  with Cons.prems(2) have "stage (last q) = stg \<and> crew (last q) = crw" by blast
  then have "stage ?set = stg \<and> crew ?set = crw" by (simp add: act_scene_keeps)
  with Cons.prems(2) have inv: "\<forall>s \<in> set (q @ [?set]). stage s = stg \<and> crew s = crw"
    by simp
  have "q @ [?set] \<noteq> []" by simp
  from Cons.IH [OF this inv] show ?case by (simp add: produce_step_eq)
qed

lemma length_spec_run: "length (fst (spec_run stg cursor drc performer scripts)) = length scripts"
  by (induction scripts arbitrary: cursor) (simp_all add: Let_def)

lemma nth_spec_run:
  "i < length scripts \<Longrightarrow>
     fst (spec_run stg cursor drc performer scripts) ! i
       = perfom performer
           (instruct drc stg (snd (spec_run stg cursor drc performer (take i scripts))))
           (scripts ! i)"
proof (induction scripts arbitrary: cursor i)
  case Nil
  then show ?case by simp
next
  case (Cons script scripts)
  show ?case
  proof (cases i)
    case 0
    then show ?thesis by (simp add: Let_def)
  next
    case (Suc j)
    with Cons.prems have "j < length scripts" by simp
    from Cons.IH [OF this] Suc show ?thesis by (simp add: Let_def)
  qed
qed

text \<open>
  Claim C6. For every stage, layout, director, performer and list of scripts,
  \<open>produce_scenes\<close> is the left-to-right fold of instruct, perform and adjust: it appends
  to the buffer exactly the output of the loop as the specification words it, one pair per
  script and in the order of the scripts, and the pair for script \<open>i\<close> is what the
  performer returns for that script on the instruction computed from the layout reached
  by adjusting on the scripts before it.
\<close>

theorem produce_scenes_is_fold:
  fixes performer :: "('f, 'tok) Actor"
  shows "produce_scenes \<lparr> stage = stg, stage_layout = cursor,
                          crew = \<lparr> director = drc, actor = performer \<rparr> \<rparr> into scripts
           = into @ fst (spec_run stg cursor drc performer scripts)
     \<and> length (produce_scenes \<lparr> stage = stg, stage_layout = cursor,
                          crew = \<lparr> director = drc, actor = performer \<rparr> \<rparr> into scripts)
           = length into + length scripts
     \<and> (i < length scripts \<longrightarrow>
          produce_scenes \<lparr> stage = stg, stage_layout = cursor,
                          crew = \<lparr> director = drc, actor = performer \<rparr> \<rparr> into scripts
            ! (length into + i)
           = perfom performer
               (instruct drc stg (snd (spec_run stg cursor drc performer (take i scripts))))
               (scripts ! i))"
proof -
  let ?set = "\<lparr> stage = stg, stage_layout = cursor,
                 crew = \<lparr> director = drc, actor = performer \<rparr> \<rparr>"
  have "[?set] \<noteq> []" and "last [?set] = ?set" by simp_all
  from for_each_produce_step [OF this, of scripts into]
  have out: "produce_scenes ?set into scripts
               = into @ fst (spec_run stg cursor drc performer scripts)"
    by (simp add: produce_scenes_def produce_scenes_state_def)
  show ?thesis
    by (simp add: out length_spec_run nth_spec_run)
qed

theorem produce_scenes_is_fold_witness:
  "(2::nat) < length [''First'', ''Second'', ''Third'']
   \<and> produce_scenes
       \<lparr> stage = \<lparr> left = (0::real), right = 60, top_edge = 0, bottom = 20 \<rparr>,
         stage_layout = \<lparr> x_offset = (0::real), y_offset = 0, horizontal_margin = 0,
                          vertical_margin = 0, x_size = 0, y_size = 0 \<rparr>,
         crew = \<lparr> director = horizontally,
                  actor = \<lparr> perfom = (\<lambda>instr script.
                    (\<lparr> left = extract_value (low (horizontal instr)),
                       right = extract_value (low (horizontal instr)) + 10,
                       top_edge = extract_value (low (vertical instr)),
                       bottom = 2 \<rparr>, script)) \<rparr> \<rparr> \<rparr>
       [] [''First'', ''Second'', ''Third'']
     = [(\<lparr> left = (0::real), right = 10, top_edge = 0, bottom = 2 \<rparr>, ''First''),
        (\<lparr> left = 11, right = 21, top_edge = 0, bottom = 2 \<rparr>, ''Second''),
        (\<lparr> left = 22, right = 32, top_edge = 0, bottom = 2 \<rparr>, ''Third'')]
   \<and> produce_scenes
       \<lparr> stage = \<lparr> left = (0::real), right = 60, top_edge = 0, bottom = 20 \<rparr>,
         stage_layout = \<lparr> x_offset = (0::real), y_offset = 0, horizontal_margin = 0,
                          vertical_margin = 0, x_size = 0, y_size = 0 \<rparr>,
         crew = \<lparr> director = horizontally,
                  actor = \<lparr> perfom = (\<lambda>instr script.
                    (\<lparr> left = extract_value (low (horizontal instr)),
                       right = extract_value (low (horizontal instr)) + 10,
                       top_edge = extract_value (low (vertical instr)),
                       bottom = 2 \<rparr>, script)) \<rparr> \<rparr> \<rparr>
       [] [''First'', ''Second'', ''Third''] ! 2
     = (\<lparr> left = 22, right = 32, top_edge = 0, bottom = 2 \<rparr>, ''Third'')"
proof -
  have h: "(2::nat) < length [''First'', ''Second'', ''Third'']" by simp
  from produce_scenes_is_fold [where i = 2 and into = "[]"
      and scripts = "[''First'', ''Second'', ''Third'']"
      and stg = "\<lparr> left = (0::real), right = 60, top_edge = 0, bottom = 20 \<rparr>"
      and cursor = "\<lparr> x_offset = (0::real), y_offset = 0, horizontal_margin = 0,
         vertical_margin = 0, x_size = 0, y_size = 0 \<rparr>"
      and drc = horizontally
      and performer = "\<lparr> perfom = (\<lambda>instr script.
                    (\<lparr> left = extract_value (low (horizontal instr)),
                       right = extract_value (low (horizontal instr)) + 10,
                       top_edge = extract_value (low (vertical instr)),
                       bottom = 2 \<rparr>, script)) \<rparr>"] h
  show ?thesis
    by (simp add: Let_def horizontally_def horizontal_next_def horizontal_adjust_def
        Strict_def Lenient_def)
qed

text \<open>
  Claim C7. The set returned by a step of the negotiation has the stage, the director and
  the performer of the set the step was given; its layout is the one the director's
  \<open>adjust\<close> returns for the placement of the step.
\<close>

theorem act_scene_frame:
  "stage (fst (act_scene set_v script)) = stage set_v
   \<and> director (crew (fst (act_scene set_v script))) = director (crew set_v)
   \<and> actor (crew (fst (act_scene set_v script))) = actor (crew set_v)
   \<and> stage_layout (fst (act_scene set_v script))
       = adjust (director (crew set_v)) (stage set_v) (fst (snd (act_scene set_v script)))
           (stage_layout set_v)"
  by (simp add: act_scene_def Let_def)

text \<open>
  Hence every set that the loop of \<open>produce_scenes\<close> puts on its queue has the stage and
  the crew of the initial set.
\<close>

lemma produce_scenes_queue_frame:
  assumes "s \<in> set (fst (produce_scenes_state initial_set into scripts))"
  shows "stage s = stage initial_set \<and> crew s = crew initial_set"
proof -
  have "[initial_set] \<noteq> []"
    and "\<forall>s \<in> set [initial_set]. stage s = stage initial_set \<and> crew s = crew initial_set"
    by simp_all
  from for_each_queue_frame [OF this] assms show ?thesis
    by (simp add: produce_scenes_state_def)
qed

end
